theory Spec2Isabelle
  imports Main
begin

section \<open>Reactive primitives\<close>

text \<open>
  A \<^verbatim>\<open>BehaviorSubject\<close> is a cell that always holds a value and publishes every
  assignment. The model keeps the value it holds and, oldest first, the values it held
  before: \<^verbatim>\<open>getValue()\<close> reads the cell, \<^verbatim>\<open>next(v)\<close> publishes \<open>v\<close>.
  The constructor's argument is the first value.
\<close>

record 'a BehaviorSubject =
  held :: 'a
  earlier :: "'a list"

definition new_BehaviorSubject :: "'a \<Rightarrow> 'a BehaviorSubject" where
  "new_BehaviorSubject v = \<lparr>held = v, earlier = []\<rparr>"

definition getValue :: "'a BehaviorSubject \<Rightarrow> 'a" where
  "getValue b = held b"

definition bs_next :: "'a \<Rightarrow> 'a BehaviorSubject \<Rightarrow> 'a BehaviorSubject" where
  "bs_next v b = \<lparr>held = v, earlier = earlier b @ [held b]\<rparr>"

text \<open>Everything the subject has published so far, the value it holds last.\<close>

definition published :: "'a BehaviorSubject \<Rightarrow> 'a list" where
  "published b = earlier b @ [held b]"

section \<open>auth.state.ts: the token holder\<close>

text \<open>
  The field \<^verbatim>\<open>token\<close> is a BehaviorSubject of strings created with \<^verbatim>\<open>null\<close>: the
  token is a string or null (\<open>None\<close>). The field \<^verbatim>\<open>unauthorized\<close> is a plain Subject
  without payload; the model counts its notifications.
\<close>

record AuthState =
  token :: "string option BehaviorSubject"
  unauthorized :: nat

definition new_AuthState :: AuthState where
  "new_AuthState = \<lparr>token = new_BehaviorSubject None, unauthorized = 0\<rparr>"

definition getToken :: "AuthState \<Rightarrow> string option" where
  "getToken st = getValue (token st)"

text \<open>
  JavaScript's \<^verbatim>\<open>String.prototype.split\<close> with a separator of one character: the
  segments between the separators, in order. The result is never empty
  (\<^verbatim>\<open>''.split(' ')\<close> is \<^verbatim>\<open>['']\<close>), and two adjacent separators give an empty segment.
\<close>

fun js_split :: "char \<Rightarrow> string \<Rightarrow> string list" where
  "js_split sep [] = [[]]"
| "js_split sep (c # cs) =
     (if c = sep then [] # js_split sep cs
      else (case js_split sep cs of
              [] \<Rightarrow> [[c]]
            | p # ps \<Rightarrow> (c # p) # ps))"

text \<open>
  \<^verbatim>\<open>
  public setToken(token: string): void {
    let parts = token.split(' ');
    if (parts.length > 0) {
      token = parts.pop();
      this.token.next(token);
    }
  }
  \<close>
\<close>

definition setToken :: "string \<Rightarrow> AuthState \<Rightarrow> AuthState" where
  "setToken raw st =
     (let parts = js_split (CHR '' '') raw in
      if length parts > 0 then st\<lparr>token := bs_next (Some (last parts)) (token st)\<rparr>
      else st)"

definition triggerHttpUnauthorized :: "AuthState \<Rightarrow> AuthState" where
  "triggerHttpUnauthorized st = st\<lparr>unauthorized := Suc (unauthorized st)\<rparr>"

text \<open>
  The words of the specification for \<^verbatim>\<open>setToken\<close>, for comparison with the code:
  "splitting on whitespace and taking the last segment". Whitespace is the ASCII
  white space: space, tab, line feed, vertical tab, form feed, carriage return.
\<close>

definition is_whitespace :: "char \<Rightarrow> bool" where
  "is_whitespace c =
     (c = CHR '' '' \<or> c = CHR 0x09 \<or> c = CHR 0x0A \<or> c = CHR 0x0B \<or> c = CHR 0x0C \<or> c = CHR 0x0D)"

fun spec_split_whitespace :: "string \<Rightarrow> string list" where
  "spec_split_whitespace [] = [[]]"
| "spec_split_whitespace (c # cs) =
     (if is_whitespace c then [] # spec_split_whitespace cs
      else (case spec_split_whitespace cs of
              [] \<Rightarrow> [[c]]
            | p # ps \<Rightarrow> (c # p) # ps))"

definition spec_setToken_value :: "string \<Rightarrow> string" where
  "spec_setToken_value raw = last (spec_split_whitespace raw)"

section \<open>Observables of the external ports\<close>

text \<open>
  What an Observable handed back by a port delivers to a subscriber: values, then at most
  one end, an error or a completion. The shape of the type keeps the Rx contract (nothing
  after an error or a completion).
\<close>

datatype ('e, 'a) observable =
    Emit 'a "('e, 'a) observable"
  | Fail 'e
  | Done

text \<open>\<^verbatim>\<open>Observable.of(v)\<close>: one value, then completion.\<close>

definition of_value :: "'a \<Rightarrow> ('e, 'a) observable" where
  "of_value v = Emit v Done"

text \<open>
  \<^verbatim>\<open>mergeMap\<close> over sources that deliver as soon as they are subscribed: each value of
  the outer source is replaced by the values of its inner source; an error of either
  ends the result; the result completes when the outer source has completed.
\<close>

fun followed_by :: "('e, 'a) observable \<Rightarrow> ('e, 'a) observable \<Rightarrow> ('e, 'a) observable" where
  "followed_by (Emit v r) k = Emit v (followed_by r k)"
| "followed_by (Fail e) k = Fail e"
| "followed_by Done k = k"

fun mergeMap :: "('a \<Rightarrow> ('e, 'b) observable) \<Rightarrow> ('e, 'a) observable \<Rightarrow> ('e, 'b) observable" where
  "mergeMap f (Emit a r) = followed_by (f a) (mergeMap f r)"
| "mergeMap f (Fail e) = Fail e"
| "mergeMap f Done = Done"

text \<open>
  \<^verbatim>\<open>source.do(next, error)\<close> runs \<^verbatim>\<open>next\<close> on every value and \<^verbatim>\<open>error\<close> on an
  error, and passes every notification on unchanged. \<open>tap\<close> is the state the callbacks
  leave behind once the source has delivered everything.
\<close>

fun tap :: "('a \<Rightarrow> 's \<Rightarrow> 's) \<Rightarrow> ('e \<Rightarrow> 's \<Rightarrow> 's) \<Rightarrow> ('e, 'a) observable \<Rightarrow> 's \<Rightarrow> 's" where
  "tap on_next on_error (Emit v r) s = tap on_next on_error r (on_next v s)"
| "tap on_next on_error (Fail e) s = on_error e s"
| "tap on_next on_error Done s = s"

text \<open>
  The Observables the service returns are cold: nothing runs until the caller
  subscribes. Such a result is a function of the state at subscription, giving what
  the subscriber receives and the state afterwards.
\<close>

type_synonym ('e, 'a, 's) cold = "'s \<Rightarrow> ('e, 'a) observable \<times> 's"

definition do_tap ::
  "('a \<Rightarrow> 's \<Rightarrow> 's) \<Rightarrow> ('e \<Rightarrow> 's \<Rightarrow> 's) \<Rightarrow> ('e, 'a) observable \<Rightarrow> ('e, 'a, 's) cold" where
  "do_tap on_next on_error source = (\<lambda>s. (source, tap on_next on_error source s))"

definition untapped :: "('e, 'a) observable \<Rightarrow> ('e, 'a, 's) cold" where
  "untapped source = (\<lambda>s. (source, s))"

definition subscribe :: "('e, 'a, 's) cold \<Rightarrow> 's \<Rightarrow> ('e, 'a) observable \<times> 's" where
  "subscribe c s = c s"

section \<open>auth.backend.ts and user.service.ts: the two ports\<close>

text \<open>
  The abstract classes \<^verbatim>\<open>AuthBackend\<close> and \<^verbatim>\<open>AuthUserService\<close> are implemented by the
  application; a port is the record of its methods. \<open>'u\<close> is the user type \<^verbatim>\<open>T\<close>, \<open>'r\<close>
  the credentials type \<^verbatim>\<open>R\<close>, \<open>'i\<close> the type of user ids, \<open>'e\<close> the errors the
  ports raise. A user value is \<open>'u option\<close>: \<open>None\<close> is \<^verbatim>\<open>null\<close>. An optional argument
  that is left out (\<^verbatim>\<open>undefined\<close>) is \<open>None\<close> as well.
\<close>

record ('e, 'u, 'r) AuthBackend =
  backend_deleteUserSession :: "'u option \<Rightarrow> ('e, unit) observable"
  backend_userFromCredentials :: "'r \<Rightarrow> ('e, 'u option) observable"
  backend_createUserFromCredentials :: "'r \<Rightarrow> 'u option \<Rightarrow> ('e, 'u option) observable"

record ('e, 'u, 'i) AuthUserService =
  userProvider_find :: "'i \<Rightarrow> ('e, 'u option) observable"
  userProvider_parseUser :: "'u option \<Rightarrow> ('e, 'u option) observable"

section \<open>The service (class AuthService)\<close>

text \<open>
  The errors the service throws. The source throws plain \<^verbatim>\<open>Error\<close> objects told apart
  by their messages:
  \<^item> \<open>MissingUserError\<close>: "Required user, but none found."
  \<^item> \<open>ReactivationError\<close>: "AuthService.activate: Can not activate `null` user."
  \<^item> \<open>MissingResolverError\<close>: "AuthService.activate: UserProvider dependency required."
  \<^item> \<open>MissingBackendError\<close>: "AuthService: You have not registered the AuthBackend."
\<close>

datatype error =
    MissingUserError
  | ReactivationError
  | MissingResolverError
  | MissingBackendError

text \<open>
  The fields of the class. \<^verbatim>\<open>_userRequiredFails\<close> is a Subject without payload: the
  model counts its notifications. \<^verbatim>\<open>activated\<close> starts at \<^verbatim>\<open>false\<close>, \<^verbatim>\<open>currentUser\<close> at
  \<^verbatim>\<open>null\<close>; the two ports are optional constructor arguments.
\<close>

record ('e, 'u, 'r, 'i) AuthService =
  state :: AuthState
  backend :: "('e, 'u, 'r) AuthBackend option"
  userProvider :: "('e, 'u, 'i) AuthUserService option"
  activated :: "bool BehaviorSubject"
  userRequiredFails :: nat
  currentUser :: "'u option BehaviorSubject"

definition new_AuthService ::
  "AuthState \<Rightarrow> ('e, 'u, 'r) AuthBackend option \<Rightarrow> ('e, 'u, 'i) AuthUserService option
     \<Rightarrow> ('e, 'u, 'r, 'i) AuthService" where
  "new_AuthService st b p =
     \<lparr>state = st, backend = b, userProvider = p,
      activated = new_BehaviorSubject False,
      userRequiredFails = 0,
      currentUser = new_BehaviorSubject None\<rparr>"

text \<open>\<^verbatim>\<open>get user(): T { return this.currentUser.getValue(); }\<close>\<close>

definition user :: "('e, 'u, 'r, 'i) AuthService \<Rightarrow> 'u option" where
  "user svc = getValue (currentUser svc)"

text \<open>\<^verbatim>\<open>setUser(user: T): void { this.currentUser.next(user); }\<close>\<close>

definition setUser :: "'u option \<Rightarrow> ('e, 'u, 'r, 'i) AuthService \<Rightarrow> ('e, 'u, 'r, 'i) AuthService" where
  "setUser u svc = svc\<lparr>currentUser := bs_next u (currentUser svc)\<rparr>"

text \<open>\<^verbatim>\<open>get authenticated(): boolean { return this.user != null; }\<close>\<close>

definition authenticated :: "('e, 'u, 'r, 'i) AuthService \<Rightarrow> bool" where
  "authenticated svc = (user svc \<noteq> None)"

text \<open>
  \<^verbatim>\<open>
  public getUserOrFail(): T {
    if (!this.user) {
      throw new Error('Required user, but none found.');
    }
    return this.user;
  }
  \<close>
  The test is JavaScript's negation, not a comparison with \<^verbatim>\<open>null\<close>: it holds for
  \<^verbatim>\<open>null\<close> and for every other falsy value of \<^verbatim>\<open>T\<close> (\<^verbatim>\<open>0\<close>, \<^verbatim>\<open>''\<close>, \<^verbatim>\<open>false\<close>,
  \<^verbatim>\<open>NaN\<close>). \<^verbatim>\<open>T\<close> is a type parameter without a bound, so which of its values are
  truthy is a parameter of the model: \<open>truthy\<close>. Every object is truthy.
\<close>

definition js_truthy :: "('u \<Rightarrow> bool) \<Rightarrow> 'u option \<Rightarrow> bool" where
  "js_truthy truthy v = (case v of None \<Rightarrow> False | Some u \<Rightarrow> truthy u)"

definition getUserOrFail :: "('u \<Rightarrow> bool) \<Rightarrow> ('e, 'u, 'r, 'i) AuthService \<Rightarrow> error + 'u option" where
  "getUserOrFail truthy svc =
     (if \<not> js_truthy truthy (user svc) then Inl MissingUserError else Inr (user svc))"

text \<open>
  The three protected methods that reach the Credential Exchanger. Each throws when no
  backend was injected.
  \<^verbatim>\<open>
  protected createUserFromCredentials(credentials: R, extra?: Partial): Observable {
    if (this.backend == null) {
      throw new Error('AuthService: You have not registered the AuthBackend.');
    }
    return this.backend.createUserFromCredentials(credentials);
  }
  \<close>
  The last line calls the port with one argument: the port's \<^verbatim>\<open>extra\<close> is
  \<^verbatim>\<open>undefined\<close>, whatever the method received.
\<close>

definition deleteUserSession ::
  "'u option \<Rightarrow> ('e, 'u, 'r, 'i) AuthService \<Rightarrow> error + ('e, unit) observable" where
  "deleteUserSession u svc =
     (case backend svc of
        None \<Rightarrow> Inl MissingBackendError
      | Some b \<Rightarrow> Inr (backend_deleteUserSession b u))"

definition userFromCredentials ::
  "'r \<Rightarrow> ('e, 'u, 'r, 'i) AuthService \<Rightarrow> error + ('e, 'u option) observable" where
  "userFromCredentials credentials svc =
     (case backend svc of
        None \<Rightarrow> Inl MissingBackendError
      | Some b \<Rightarrow> Inr (backend_userFromCredentials b credentials))"

definition createUserFromCredentials ::
  "'r \<Rightarrow> 'u option \<Rightarrow> ('e, 'u, 'r, 'i) AuthService \<Rightarrow> error + ('e, 'u option) observable" where
  "createUserFromCredentials credentials extra svc =
     (case backend svc of
        None \<Rightarrow> Inl MissingBackendError
      | Some b \<Rightarrow> Inr (backend_createUserFromCredentials b credentials None))"

text \<open>
  \<^verbatim>\<open>
  protected parseUserObservable(observable) {
    if (this.userProvider) {
      return observable.mergeMap((data) => this.userProvider.parseUser(data));
    }
    return observable;
  }
  \<close>
\<close>

definition parseUserObservable ::
  "('e, 'u option) observable \<Rightarrow> ('e, 'u, 'r, 'i) AuthService \<Rightarrow> ('e, 'u option) observable" where
  "parseUserObservable source svc =
     (case userProvider svc of
        Some p \<Rightarrow> mergeMap (userProvider_parseUser p) source
      | None \<Rightarrow> source)"

text \<open>
  A call of a public method ends in an exception (\<open>Inl\<close>) or returns a cold Observable
  (\<open>Inr\<close>); in both cases the state the call leaves behind is the second component.
\<close>

type_synonym ('e, 'a, 's) call = "(error + ('e, 'a, 's) cold) \<times> 's"

text \<open>
  \<^verbatim>\<open>
  public logout() {
    return this.deleteUserSession(this.user).do(() => { this.setUser(null); });
  }
  public attempt(credentials: R) {
    const user = this.parseUserObservable(this.userFromCredentials(credentials));
    return user.do((user) => this.setUser(user));
  }
  public register(credentials: R, extra?: Partial) {
    const user = this.parseUserObservable(this.createUserFromCredentials(credentials, extra));
    return user.do((user) => this.setUser(user));
  }
  \<close>
\<close>

definition logout ::
  "('e, 'u, 'r, 'i) AuthService \<Rightarrow> ('e, unit, ('e, 'u, 'r, 'i) AuthService) call" where
  "logout svc =
     (case deleteUserSession (user svc) svc of
        Inl err \<Rightarrow> (Inl err, svc)
      | Inr source \<Rightarrow> (Inr (do_tap (\<lambda>_. setUser None) (\<lambda>_ s. s) source), svc))"

definition attempt ::
  "'r \<Rightarrow> ('e, 'u, 'r, 'i) AuthService \<Rightarrow> ('e, 'u option, ('e, 'u, 'r, 'i) AuthService) call" where
  "attempt credentials svc =
     (case userFromCredentials credentials svc of
        Inl err \<Rightarrow> (Inl err, svc)
      | Inr source \<Rightarrow>
          (Inr (do_tap (\<lambda>u. setUser u) (\<lambda>_ s. s) (parseUserObservable source svc)), svc))"

definition register ::
  "'r \<Rightarrow> 'u option \<Rightarrow> ('e, 'u, 'r, 'i) AuthService
     \<Rightarrow> ('e, 'u option, ('e, 'u, 'r, 'i) AuthService) call" where
  "register credentials extra svc =
     (case createUserFromCredentials credentials extra svc of
        Inl err \<Rightarrow> (Inl err, svc)
      | Inr source \<Rightarrow>
          (Inr (do_tap (\<lambda>u. setUser u) (\<lambda>_ s. s) (parseUserObservable source svc)), svc))"

text \<open>
  \<^verbatim>\<open>
  public activate(userId: any, token?: string) {
    if (token != null) {
      this.state.setToken(token);
    }
    if (userId == null) {
      const alreadyActivated = this.activated.getValue();
      if (alreadyActivated) {
        throw new Error('AuthService.activate: Can not activate `null` user.');
      } else {
        this.setUser(null);
        this.activated.next(true);
        return Observable.of(null);
      }
    } else if (this.userProvider == null) {
      throw new Error('AuthService.activate: UserProvider dependency required.');
    }
    return this.userProvider.find(userId).do((user) => {
      this.setUser(user);
      this.activated.next(true);
    }, () => this.activated.next(true));
  }
  \<close>
\<close>

definition latch :: "('e, 'u, 'r, 'i) AuthService \<Rightarrow> ('e, 'u, 'r, 'i) AuthService" where
  "latch svc = svc\<lparr>activated := bs_next True (activated svc)\<rparr>"

definition activate ::
  "'i option \<Rightarrow> string option \<Rightarrow> ('e, 'u, 'r, 'i) AuthService
     \<Rightarrow> ('e, 'u option, ('e, 'u, 'r, 'i) AuthService) call" where
  "activate userId tok svc =
     (let svc1 = (case tok of
                    None \<Rightarrow> svc
                  | Some t \<Rightarrow> svc\<lparr>state := setToken t (state svc)\<rparr>)
      in case userId of
           None \<Rightarrow>
             (if getValue (activated svc1) then (Inl ReactivationError, svc1)
              else (Inr (untapped (of_value None)), latch (setUser None svc1)))
         | Some uid \<Rightarrow>
             (case userProvider svc1 of
                None \<Rightarrow> (Inl MissingResolverError, svc1)
              | Some p \<Rightarrow>
                  (Inr (do_tap (\<lambda>u s. latch (setUser u s)) (\<lambda>_ s. latch s)
                          (userProvider_find p uid)),
                   svc1)))"

text \<open>
  \<^verbatim>\<open>this.user$ = this.currentUser.asObservable();\<close>
  \<^verbatim>\<open>this.authenticated$ = this.user$.map((v) => v != null).distinctUntilChanged();\<close>
  A subscriber of a BehaviorSubject receives the value held at subscription and every
  value published afterwards. \<open>user_stream k svc\<close> is what a subscriber who arrived
  when the subject had published \<open>k\<close> values before the one it then held has received
  by now. \<^verbatim>\<open>distinctUntilChanged\<close> passes the first value and then every value that differs
  from the one passed last.
\<close>

fun distinct_from :: "'a \<Rightarrow> 'a list \<Rightarrow> 'a list" where
  "distinct_from prev [] = []"
| "distinct_from prev (x # xs) =
     (if x = prev then distinct_from prev xs else x # distinct_from x xs)"

definition distinctUntilChanged :: "'a list \<Rightarrow> 'a list" where
  "distinctUntilChanged xs = (case xs of [] \<Rightarrow> [] | x # rest \<Rightarrow> x # distinct_from x rest)"

definition user_stream :: "nat \<Rightarrow> ('e, 'u, 'r, 'i) AuthService \<Rightarrow> 'u option list" where
  "user_stream k svc = drop k (published (currentUser svc))"

definition authenticated_stream :: "nat \<Rightarrow> ('e, 'u, 'r, 'i) AuthService \<Rightarrow> bool list" where
  "authenticated_stream k svc = distinctUntilChanged (map (\<lambda>v. v \<noteq> None) (user_stream k svc))"

section \<open>userRequired$ in virtual time\<close>

text \<open>
  \<^verbatim>\<open>
  public get userRequired$() {
    return this.whenActivated().mergeMap(() => this.currentUser)
      .mergeMap((user: T) => {
        if (user === null) {
          this._userRequiredFails.next();
          return Observable.of(user).delay(999999);
        }
        return Observable.of(user);
      })
      .do(null, (e) => { this._userRequiredFails.next(); });
  }
  protected whenActivated() {
    return this.activated$.filter((v) => v).first().map(() => {});
  }
  \<close>
  \<^verbatim>\<open>delay\<close> is the one operator of the service that depends on the clock, so this part
  of the model carries time: a timeline lists the values a subscriber receives, each
  with the time of its delivery in milliseconds. \<^verbatim>\<open>Observable.of(v)\<close> subscribed at
  time \<open>t\<close> delivers \<open>v\<close> at \<open>t\<close>; \<^verbatim>\<open>delay(d)\<close> delivers every value \<open>d\<close> milliseconds
  later. Neither subject of the service is ever completed and neither raises an error, so
  the merged stream has no end: a timeline holds values only.
\<close>

type_synonym 'a timeline = "(nat \<times> 'a) list"

definition timed_of :: "nat \<Rightarrow> 'a \<Rightarrow> 'a timeline" where
  "timed_of t v = [(t, v)]"

definition delay :: "nat \<Rightarrow> 'a timeline \<Rightarrow> 'a timeline" where
  "delay d line = map (\<lambda>(t, v). (t + d, v)) line"

text \<open>
  The function given to the second \<^verbatim>\<open>mergeMap\<close>, for a user value that arrives at time
  \<open>t\<close>: how many notifications it sends to \<^verbatim>\<open>_userRequiredFails\<close>, and the inner
  Observable it returns.
\<close>

definition userRequired_project :: "nat \<Rightarrow> 'u option \<Rightarrow> nat \<times> 'u option timeline" where
  "userRequired_project t u =
     (if u = None then (1, delay 999999 (timed_of t u)) else (0, timed_of t u))"

text \<open>
  \<^verbatim>\<open>mergeMap\<close> over the user values that reach it: the notifications are counted, the
  inner deliveries merged in the order of their times.
\<close>

fun userRequired_merge :: "'u option timeline \<Rightarrow> nat \<times> 'u option timeline" where
  "userRequired_merge [] = (0, [])"
| "userRequired_merge ((t, u) # rest) =
     (case userRequired_project t u of
        (n, inner) \<Rightarrow>
          (case userRequired_merge rest of
             (m, later) \<Rightarrow> (n + m, sort_key fst (inner @ later))))"

text \<open>
  What the two subjects publish after the subscription, in order, each with its time.
\<close>

datatype 'u subject_event =
    UserNext "'u option"
  | ActivatedNext bool

fun user_values :: "(nat \<times> 'u subject_event) list \<Rightarrow> 'u option timeline" where
  "user_values [] = []"
| "user_values ((t, UserNext u) # evs) = (t, u) # user_values evs"
| "user_values ((t, ActivatedNext b) # evs) = user_values evs"

text \<open>
  \<^verbatim>\<open>whenActivated().mergeMap(() => this.currentUser)\<close> for a subscriber that found the latch
  closed: it waits for the first \<^verbatim>\<open>true\<close> of \<^verbatim>\<open>activated\<close>, then receives the user held
  at that moment (\<open>cur\<close>) and every user published later.
\<close>

fun await_activation :: "'u option \<Rightarrow> (nat \<times> 'u subject_event) list \<Rightarrow> 'u option timeline" where
  "await_activation cur [] = []"
| "await_activation cur ((t, UserNext u) # evs) = await_activation u evs"
| "await_activation cur ((t, ActivatedNext b) # evs) =
     (if b then (t, cur) # user_values evs else await_activation cur evs)"

definition userRequired_observed ::
  "nat \<Rightarrow> (nat \<times> 'u subject_event) list \<Rightarrow> ('e, 'u, 'r, 'i) AuthService \<Rightarrow> 'u option timeline" where
  "userRequired_observed t evs svc =
     (if getValue (activated svc) then (t, user svc) # user_values evs
      else await_activation (user svc) evs)"

text \<open>
  A subscription to \<^verbatim>\<open>userRequired$\<close> at time \<open>t\<close>, followed by the events \<open>evs\<close>: what
  the subscriber receives and when, and the service with the notifications to
  \<^verbatim>\<open>_userRequiredFails\<close> counted.
\<close>

definition userRequired_subscribe ::
  "nat \<Rightarrow> (nat \<times> 'u subject_event) list \<Rightarrow> ('e, 'u, 'r, 'i) AuthService
     \<Rightarrow> 'u option timeline \<times> ('e, 'u, 'r, 'i) AuthService" where
  "userRequired_subscribe t evs svc =
     (case userRequired_merge (userRequired_observed t evs svc) of
        (n, deliveries) \<Rightarrow> (deliveries, svc\<lparr>userRequiredFails := userRequiredFails svc + n\<rparr>))"

section \<open>auth.interceptor.ts: the request decorator\<close>

text \<open>
  The request and its headers are Angular's. Header names are case-insensitive there:
  the headers are kept under their lower-case names, each name once, with the list of
  its values; \<^verbatim>\<open>set\<close> replaces the values of a name or adds the name. A clone with
  \<^verbatim>\<open>setHeaders\<close> is the request with those headers set and nothing else changed.
\<close>

type_synonym HttpHeaders = "(string \<times> string list) list"

record 'b HttpRequest =
  verb :: string
  url :: string
  body :: 'b
  headers :: HttpHeaders

definition lower_char :: "char \<Rightarrow> char" where
  "lower_char c =
     (case map_of (zip ''ABCDEFGHIJKLMNOPQRSTUVWXYZ'' ''abcdefghijklmnopqrstuvwxyz'') c of
        Some l \<Rightarrow> l
      | None \<Rightarrow> c)"

definition lower_name :: "string \<Rightarrow> string" where
  "lower_name name = map lower_char name"

fun set_entry :: "string \<Rightarrow> string \<Rightarrow> HttpHeaders \<Rightarrow> HttpHeaders" where
  "set_entry key v [] = [(key, [v])]"
| "set_entry key v ((k, vs) # hs) =
     (if k = key then (k, [v]) # hs else (k, vs) # set_entry key v hs)"

definition headers_set :: "string \<Rightarrow> string \<Rightarrow> HttpHeaders \<Rightarrow> HttpHeaders" where
  "headers_set name v hs = set_entry (lower_name name) v hs"

definition headers_getAll :: "string \<Rightarrow> HttpHeaders \<Rightarrow> string list option" where
  "headers_getAll name hs = map_of hs (lower_name name)"

definition clone_setHeaders :: "(string \<times> string) list \<Rightarrow> 'b HttpRequest \<Rightarrow> 'b HttpRequest" where
  "clone_setHeaders updates req =
     req\<lparr>headers := fold (\<lambda>(name, v). headers_set name v) updates (headers req)\<rparr>"

text \<open>
  \<^verbatim>\<open>
  intercept(req, next) {
    let token = this.authState.getToken();
    if (token) {
      req = req.clone({ setHeaders: { Authorization: 'Bearer ' + token } });
    }
    return next.handle(req).do(...);
  }
  \<close>
  \<open>intercept_request\<close> is the request handed to \<^verbatim>\<open>next.handle\<close>. The test \<^verbatim>\<open>if (token)\<close>
  fails for \<^verbatim>\<open>null\<close> and for the empty string.
\<close>

definition intercept_request :: "AuthState \<Rightarrow> 'b HttpRequest \<Rightarrow> 'b HttpRequest" where
  "intercept_request authState req =
     (case getToken authState of
        None \<Rightarrow> req
      | Some t \<Rightarrow>
          if t = [] then req
          else clone_setHeaders [(''Authorization'', ''Bearer '' @ t)] req)"

section \<open>Properties of the token holder\<close>

lemma js_split_not_empty: "js_split sep s \<noteq> []"
  by (induction s) (auto split: list.splits)

lemma js_split_no_sep: "sep \<notin> set s \<Longrightarrow> js_split sep s = [s]"
  by (induction s) auto

lemma js_split_append:
  "js_split sep (pre @ sep # suf) = js_split sep pre @ js_split sep suf"
proof (induction pre)
  case Nil
  show ?case by simp
next
  case (Cons c pre)
  obtain p ps where "js_split sep pre = p # ps"
    using js_split_not_empty [of sep pre] by (cases "js_split sep pre") auto
  with Cons show ?case by simp
qed

lemma js_split_last_after_sep:
  "sep \<notin> set suf \<Longrightarrow> last (js_split sep (pre @ sep # suf)) = suf"
  by (simp add: js_split_append js_split_not_empty js_split_no_sep)

lemma getToken_setToken: "getToken (setToken raw st) = Some (last (js_split (CHR '' '') raw))"
  by (simp add: getToken_def setToken_def getValue_def bs_next_def Let_def js_split_not_empty)

section \<open>Properties of the streams\<close>

lemma last_distinct_from: "last (x # distinct_from x xs) = last (x # xs)"
proof (induction xs arbitrary: x)
  case Nil
  show ?case by simp
next
  case (Cons y ys)
  show ?case
  proof (cases "y = x")
    case True
    have "last (x # distinct_from x (y # ys)) = last (x # distinct_from x ys)"
      using True by simp
    also have "\<dots> = last (x # ys)" by (rule Cons.IH)
    also have "\<dots> = last (x # y # ys)" using True by simp
    finally show ?thesis .
  next
    case False
    have "last (x # distinct_from x (y # ys)) = last (y # distinct_from y ys)"
      using False by simp
    also have "\<dots> = last (y # ys)" by (rule Cons.IH)
    also have "\<dots> = last (x # y # ys)" by simp
    finally show ?thesis .
  qed
qed

lemma last_distinctUntilChanged: "xs \<noteq> [] \<Longrightarrow> last (distinctUntilChanged xs) = last xs"
  by (cases xs) (simp_all add: distinctUntilChanged_def last_distinct_from del: last.simps)

lemma distinctUntilChanged_not_empty: "xs \<noteq> [] \<Longrightarrow> distinctUntilChanged xs \<noteq> []"
  by (cases xs) (simp_all add: distinctUntilChanged_def)

lemma user_stream_last:
  "k \<le> length (earlier (currentUser svc)) \<Longrightarrow>
     user_stream k svc \<noteq> [] \<and> last (user_stream k svc) = user svc"
  by (simp add: user_stream_def published_def user_def getValue_def)

lemma authenticated_stream_last:
  assumes "k \<le> length (earlier (currentUser svc))"
  shows "authenticated_stream k svc \<noteq> [] \<and> last (authenticated_stream k svc) = authenticated svc"
proof -
  from user_stream_last [OF assms]
  have ne: "user_stream k svc \<noteq> []" and l: "last (user_stream k svc) = user svc" by simp_all
  from ne have "map (\<lambda>v. v \<noteq> None) (user_stream k svc) \<noteq> []" by simp
  then show ?thesis
    using ne l
    by (simp add: authenticated_stream_def last_distinctUntilChanged distinctUntilChanged_not_empty
        last_map authenticated_def)
qed

text \<open>
  The merge behind \<^verbatim>\<open>userRequired$\<close>: one notification to \<^verbatim>\<open>_userRequiredFails\<close> for every
  null user that reaches it; a user that is not null is delivered at once; a null user is
  delivered too, 999999 milliseconds after it arrived.
\<close>

lemma userRequired_merge_fails:
  "fst (userRequired_merge obs) = length (filter (\<lambda>e. snd e = None) obs)"
  by (induction obs rule: userRequired_merge.induct)
     (auto simp: userRequired_project_def split: prod.splits)

lemma userRequired_merge_user_delivered:
  "(t, Some u) \<in> set obs \<Longrightarrow> (t, Some u) \<in> set (snd (userRequired_merge obs))"
  by (induction obs rule: userRequired_merge.induct)
     (auto simp: userRequired_project_def delay_def timed_of_def set_insort_key split: prod.splits)

lemma userRequired_merge_null_delivered:
  "(t, None) \<in> set obs \<Longrightarrow> (t + 999999, None) \<in> set (snd (userRequired_merge obs))"
  by (induction obs rule: userRequired_merge.induct)
     (auto simp: userRequired_project_def delay_def timed_of_def set_insort_key split: prod.splits)

section \<open>Properties of the request headers\<close>

lemma map_of_set_entry: "map_of (set_entry key v hs) = (map_of hs)(key \<mapsto> [v])"
  by (induction hs) (auto simp: fun_eq_iff)

lemma length_set_entry:
  "length (set_entry key v hs) = (if map_of hs key = None then Suc (length hs) else length hs)"
  by (induction hs) auto

lemma others_set_entry:
  "filter (\<lambda>h. fst h \<noteq> key) (set_entry key v hs) = filter (\<lambda>h. fst h \<noteq> key) hs"
  by (induction hs) auto

lemma lower_Authorization: "lower_name ''Authorization'' = ''authorization''"
  by (simp add: lower_name_def lower_char_def)

section \<open>Properties of the guard of getUserOrFail\<close>

text \<open>
  The guard is JavaScript's negation: the method throws exactly when the current user
  is falsy. For a user type with a falsy value (numbers, with \<^verbatim>\<open>0\<close>) it throws although
  the user is not null and the getter \<^verbatim>\<open>authenticated\<close> is true.
\<close>

lemma getUserOrFail_throws_iff_falsy:
  "(getUserOrFail truthy svc = Inl MissingUserError) = (\<not> js_truthy truthy (user svc))"
  by (simp add: getUserOrFail_def)

lemma getUserOrFail_number_zero:
  "authenticated (setUser (Some (0::nat))
      (new_AuthService new_AuthState None None :: (string, nat, string, nat) AuthService))
   \<and> getUserOrFail (\<lambda>n. n \<noteq> 0)
      (setUser (Some (0::nat))
        (new_AuthService new_AuthState None None :: (string, nat, string, nat) AuthService))
     = Inl MissingUserError"
  by (simp add: getUserOrFail_def js_truthy_def authenticated_def user_def setUser_def
      getValue_def bs_next_def)

section \<open>Properties of the registration path\<close>

text \<open>
  The argument \<^verbatim>\<open>extra\<close> never reaches the port: a registration with it is the
  registration without it.
\<close>

lemma createUserFromCredentials_ignores_extra:
  "createUserFromCredentials credentials extra svc = createUserFromCredentials credentials None svc"
  by (simp add: createUserFromCredentials_def)

lemma register_ignores_extra: "register credentials extra svc = register credentials None svc"
  by (simp add: register_def createUserFromCredentials_def)

section \<open>The claims\<close>

text \<open>
  C1. Claimed: when \<^verbatim>\<open>userRequired$\<close> observes a null user after activation, it notifies
  \<^verbatim>\<open>_userRequiredFails\<close> and then never delivers a value to the subscriber, in particular
  never null. The code notifies, but the inner Observable is
  \<^verbatim>\<open>Observable.of(user).delay(999999)\<close>, not one that stays silent: on a service activated
  with \<^verbatim>\<open>activate(null)\<close>, a subscriber that arrives at time 0 is sent null at
  999999 ms. With a login at 5000 ms in between, the subscriber receives that user at
  5000 ms and null at 999999 ms all the same.
\<close>

theorem userRequired_null_arrives_late:
  "userRequired_subscribe 0 []
     (snd (activate None None
        (new_AuthService new_AuthState None None :: (string, nat, string, nat) AuthService)))
   = ([(999999, None)],
      (snd (activate None None (new_AuthService new_AuthState None None)))
        \<lparr>userRequiredFails := 1\<rparr>)
   \<and> fst (userRequired_subscribe 0 [(5000, UserNext (Some 3))]
     (snd (activate None None
        (new_AuthService new_AuthState None None :: (string, nat, string, nat) AuthService))))
   = [(5000, Some 3), (999999, None)]"
  by (simp add: userRequired_subscribe_def userRequired_observed_def activate_def new_AuthService_def
      latch_def setUser_def bs_next_def getValue_def new_BehaviorSubject_def user_def
      userRequired_project_def delay_def timed_of_def)

text \<open>
  C2. Claimed: \<^verbatim>\<open>register(credentials, extra)\<close> calls the port's
  \<^verbatim>\<open>createUserFromCredentials\<close> with the credentials and with \<^verbatim>\<open>extra\<close>. The code calls
  it with the credentials alone. Here the port answers with the \<^verbatim>\<open>extra\<close> it was given;
  a registration with \<^verbatim>\<open>extra = 7\<close> is answered with null, the value of an argument that
  was left out.
\<close>

theorem register_drops_extra:
  "\<exists>c. register ''secret'' (Some (7::nat))
          (new_AuthService new_AuthState
             (Some \<lparr>backend_deleteUserSession = (\<lambda>_. Done),
                    backend_userFromCredentials = (\<lambda>_. Done),
                    backend_createUserFromCredentials = (\<lambda>_ extra. of_value extra)\<rparr>)
             None :: (string, nat, string, nat) AuthService)
        = (Inr c, new_AuthService new_AuthState
             (Some \<lparr>backend_deleteUserSession = (\<lambda>_. Done),
                    backend_userFromCredentials = (\<lambda>_. Done),
                    backend_createUserFromCredentials = (\<lambda>_ extra. of_value extra)\<rparr>)
             None)
      \<and> fst (subscribe c (new_AuthService new_AuthState
             (Some \<lparr>backend_deleteUserSession = (\<lambda>_. Done),
                    backend_userFromCredentials = (\<lambda>_. Done),
                    backend_createUserFromCredentials = (\<lambda>_ extra. of_value extra)\<rparr>)
             None)) = of_value None"
  by (simp add: register_def createUserFromCredentials_def new_AuthService_def parseUserObservable_def
      subscribe_def do_tap_def)

text \<open>
  C3 (as amended). \<^verbatim>\<open>setToken\<close> splits its argument at every space character (U+0020,
  the separator of \<^verbatim>\<open>split(' ')\<close>) and stores the last segment: the token is what
  follows the last space of the argument, and an argument without a space is stored as it
  is. So after \<^verbatim>\<open>setToken("Bearer abc123")\<close> and after \<^verbatim>\<open>setToken("abc123")\<close>,
  \<^verbatim>\<open>getToken()\<close> returns \<^verbatim>\<open>"abc123"\<close>.
\<close>

theorem setToken_keeps_last_space_segment:
  "getToken (setToken raw st) = Some (last (js_split (CHR '' '') raw))
   \<and> (CHR '' '' \<notin> set suf \<longrightarrow> getToken (setToken (pre @ CHR '' '' # suf) st) = Some suf)
   \<and> (CHR '' '' \<notin> set raw \<longrightarrow> getToken (setToken raw st) = Some raw)
   \<and> getToken (setToken ''Bearer abc123'' st) = Some ''abc123''
   \<and> getToken (setToken ''abc123'' st) = Some ''abc123''"
proof -
  have general: "\<And>r. getToken (setToken r st) = Some (last (js_split (CHR '' '') r))"
    by (rule getToken_setToken)
  have after: "CHR '' '' \<notin> set suf \<longrightarrow> getToken (setToken (pre @ CHR '' '' # suf) st) = Some suf"
    by (simp add: general js_split_last_after_sep)
  have whole: "CHR '' '' \<notin> set raw \<longrightarrow> getToken (setToken raw st) = Some raw"
    by (simp add: general js_split_no_sep)
  have bearer: "getToken (setToken ''Bearer abc123'' st) = Some ''abc123''"
    by (simp add: general)
  have bare: "getToken (setToken ''abc123'' st) = Some ''abc123''"
    by (simp add: general)
  from general after whole bearer bare show ?thesis by blast
qed

theorem setToken_keeps_last_space_segment_witness:
  "getToken (setToken ''abc123'' new_AuthState) = Some ''abc123''
   \<and> getToken (setToken (''Bearer'' @ CHR '' '' # ''abc123'') new_AuthState) = Some ''abc123''"
  using setToken_keeps_last_space_segment [where raw = "''abc123''" and st = new_AuthState and suf = "''abc123''" and pre = "''Bearer''"]
  by simp

text \<open>
  C3 as stated ("splitting on whitespace") fails where the white space is not a space: a
  tab does not separate. The code stores the whole argument; the last segment of a split
  on white space is \<^verbatim>\<open>"abc123"\<close>.
\<close>

theorem setToken_tab_counterexample:
  "getToken (setToken (''Bearer'' @ CHR 0x09 # ''abc123'') new_AuthState)
     = Some (''Bearer'' @ CHR 0x09 # ''abc123'')
   \<and> spec_setToken_value (''Bearer'' @ CHR 0x09 # ''abc123'') = ''abc123''
   \<and> getToken (setToken (''Bearer'' @ CHR 0x09 # ''abc123'') new_AuthState)
     \<noteq> Some (spec_setToken_value (''Bearer'' @ CHR 0x09 # ''abc123''))"
  by (simp add: getToken_setToken spec_setToken_value_def is_whitespace_def)

text \<open>
  C4. On a service that is not activated, \<^verbatim>\<open>activate(null, null)\<close> returns an Observable
  (of the one value null, without side effect), and leaves the latch true and the user
  null; the same call on the state it left throws the error "Can not activate `null` user"
  and changes nothing.
\<close>

theorem activate_null_twice:
  assumes "getValue (activated svc) = False"
  shows "\<exists>c svc1. activate None None svc = (Inr c, svc1)
           \<and> subscribe c svc1 = (of_value None, svc1)
           \<and> getValue (activated svc1) = True
           \<and> user svc1 = None
           \<and> activate None None svc1 = (Inl ReactivationError, svc1)"
  using assms
  by (simp add: activate_def latch_def setUser_def user_def getValue_def bs_next_def
      subscribe_def untapped_def)

theorem activate_null_twice_witness:
  "\<exists>c svc1. activate None None (new_AuthService new_AuthState None None :: (string, nat, string, nat) AuthService) = (Inr c, svc1)
           \<and> subscribe c svc1 = (of_value None, svc1)
           \<and> getValue (activated svc1) = True
           \<and> user svc1 = None
           \<and> activate None None svc1 = (Inl ReactivationError, svc1)"
  using activate_null_twice [of "new_AuthService new_AuthState None None :: (string, nat, string, nat) AuthService"]
  by (simp add: new_AuthService_def new_BehaviorSubject_def getValue_def)

text \<open>
  C5. With a User Resolver whose \<^verbatim>\<open>find\<close> fails (its Observable delivers an error and no
  value), \<^verbatim>\<open>activate(userId, token)\<close> with a user id that is not null returns an
  Observable; the call itself leaves the latch as it was. Once the caller has subscribed,
  the subscriber has received the resolver's error, the latch is true, and nothing has been
  published on the user subject: the current user is the one from before the call (null
  on a fresh service).
\<close>

theorem activate_resolver_fails:
  assumes "userProvider svc = Some p" and "userProvider_find p uid = Fail e"
  shows "\<exists>c svc1 svc2. activate (Some uid) tok svc = (Inr c, svc1)
           \<and> activated svc1 = activated svc
           \<and> subscribe c svc1 = (Fail e, svc2)
           \<and> getValue (activated svc2) = True
           \<and> currentUser svc2 = currentUser svc
           \<and> user svc2 = user svc
           \<and> (user svc = None \<longrightarrow> user svc2 = None)"
  using assms
  by (cases tok) (simp_all add: activate_def latch_def user_def getValue_def bs_next_def
      subscribe_def do_tap_def)

theorem activate_resolver_fails_witness:
  "\<exists>c svc1 svc2.
      activate (Some (7::nat)) (Some ''Bearer abc'')
        (new_AuthService new_AuthState None
           (Some \<lparr>userProvider_find = (\<lambda>_. Fail ''not found''), userProvider_parseUser = of_value\<rparr>)
         :: (string, nat, string, nat) AuthService) = (Inr c, svc1)
      \<and> subscribe c svc1 = (Fail ''not found'', svc2)
      \<and> getValue (activated svc2) = True
      \<and> user svc2 = None"
  using activate_resolver_fails
    [where svc = "new_AuthService new_AuthState None
           (Some \<lparr>userProvider_find = (\<lambda>_. Fail ''not found''), userProvider_parseUser = of_value\<rparr>)
         :: (string, nat, string, nat) AuthService"
       and p = "\<lparr>userProvider_find = (\<lambda>_. Fail ''not found''), userProvider_parseUser = of_value\<rparr>"
       and uid = 7 and e = "''not found''" and tok = "Some ''Bearer abc''"]
  by (auto simp: new_AuthService_def user_def getValue_def new_BehaviorSubject_def)

text \<open>
  C6. Without a Credential Exchanger, \<^verbatim>\<open>attempt(credentials)\<close> and \<^verbatim>\<open>logout()\<close> throw
  the error "You have not registered the AuthBackend" and leave the whole service, so also
  the current user, as it was.
\<close>

theorem missing_backend:
  assumes "backend svc = None"
  shows "attempt credentials svc = (Inl MissingBackendError, svc)
         \<and> logout svc = (Inl MissingBackendError, svc)
         \<and> user (snd (attempt credentials svc)) = user svc
         \<and> user (snd (logout svc)) = user svc"
  using assms
  by (simp add: attempt_def logout_def userFromCredentials_def deleteUserSession_def)

theorem missing_backend_witness:
  "attempt ''secret'' (new_AuthService new_AuthState None None :: (string, nat, string, nat) AuthService)
     = (Inl MissingBackendError, new_AuthService new_AuthState None None)
   \<and> logout (new_AuthService new_AuthState None None :: (string, nat, string, nat) AuthService)
     = (Inl MissingBackendError, new_AuthService new_AuthState None None)"
  using missing_backend
    [where svc = "new_AuthService new_AuthState None None :: (string, nat, string, nat) AuthService"
       and credentials = "''secret''"]
  by (simp add: new_AuthService_def)

text \<open>
  C7. The user of the specification is a record, and every object is truthy. For such a
  user type \<^verbatim>\<open>getUserOrFail()\<close> returns the current user in every state where it is not
  null, throws the error "Required user, but none found" exactly when the current user is
  null, and throws no other error.
\<close>

theorem getUserOrFail_object_user:
  assumes "\<forall>u. truthy u"
  shows "(user svc \<noteq> None \<longrightarrow> getUserOrFail truthy svc = Inr (user svc))
         \<and> ((getUserOrFail truthy svc = Inl MissingUserError) = (user svc = None))
         \<and> (\<forall>err. getUserOrFail truthy svc = Inl err \<longrightarrow> err = MissingUserError)"
  using assms
  by (auto simp: getUserOrFail_def js_truthy_def split: option.splits)

theorem getUserOrFail_object_user_witness:
  "getUserOrFail (\<lambda>_. True)
     (setUser (Some (5::nat)) (new_AuthService new_AuthState None None :: (string, nat, string, nat) AuthService))
     = Inr (Some 5)
   \<and> getUserOrFail (\<lambda>_. True)
     (new_AuthService new_AuthState None None :: (string, nat, string, nat) AuthService)
     = Inl MissingUserError"
proof -
  have objects: "\<forall>u::nat. (\<lambda>_. True) u" by simp
  have held: "user (setUser (Some (5::nat))
      (new_AuthService new_AuthState None None :: (string, nat, string, nat) AuthService)) = Some 5"
    by (simp add: user_def setUser_def getValue_def bs_next_def)
  have fresh: "user (new_AuthService new_AuthState None None :: (string, nat, string, nat) AuthService)
      = None"
    by (simp add: user_def getValue_def new_AuthService_def new_BehaviorSubject_def)
  note logged_in = getUserOrFail_object_user
    [OF objects, where svc = "setUser (Some (5::nat))
      (new_AuthService new_AuthState None None :: (string, nat, string, nat) AuthService)"]
  note logged_out = getUserOrFail_object_user
    [OF objects, where svc = "new_AuthService new_AuthState None None :: (string, nat, string, nat) AuthService"]
  from logged_in held logged_out fresh show ?thesis by simp
qed

text \<open>
  C8. With no token or the empty token held, the request handed on is the request
  received. With a token \<open>t\<close> that is not empty, it is a clone: same method, URL and body;
  the header \<^verbatim>\<open>Authorization\<close> has exactly one value, \<^verbatim>\<open>Bearer t\<close>; every other header
  is as it was, in the same order; and the number of headers has grown by one where the
  request had no \<^verbatim>\<open>Authorization\<close> header (its value is replaced where it had one).
\<close>

theorem intercept_request_decorates:
  "(getToken authState = None \<or> getToken authState = Some [] \<longrightarrow>
      intercept_request authState req = req)
   \<and> (getToken authState = Some t \<and> t \<noteq> [] \<longrightarrow>
        verb (intercept_request authState req) = verb req
      \<and> url (intercept_request authState req) = url req
      \<and> body (intercept_request authState req) = body req
      \<and> headers_getAll ''Authorization'' (headers (intercept_request authState req))
           = Some [''Bearer '' @ t]
      \<and> filter (\<lambda>h. fst h \<noteq> ''authorization'') (headers (intercept_request authState req))
           = filter (\<lambda>h. fst h \<noteq> ''authorization'') (headers req)
      \<and> length (headers (intercept_request authState req))
           = (if headers_getAll ''Authorization'' (headers req) = None
              then Suc (length (headers req)) else length (headers req)))"
  by (auto simp: intercept_request_def clone_setHeaders_def headers_set_def headers_getAll_def
      lower_Authorization map_of_set_entry length_set_entry others_set_entry)

theorem intercept_request_decorates_witness:
  "headers_getAll ''Authorization''
     (headers (intercept_request (setToken ''Bearer abc'' new_AuthState)
        \<lparr>verb = ''GET'', url = ''/users'', body = (), headers = [(''accept'', [''*/*''])]\<rparr>))
     = Some [''Bearer abc'']
   \<and> length (headers (intercept_request (setToken ''Bearer abc'' new_AuthState)
        \<lparr>verb = ''GET'', url = ''/users'', body = (), headers = [(''accept'', [''*/*''])]\<rparr>))
     = 2
   \<and> intercept_request new_AuthState
        \<lparr>verb = ''GET'', url = ''/users'', body = (), headers = [(''accept'', [''*/*''])]\<rparr>
     = \<lparr>verb = ''GET'', url = ''/users'', body = (), headers = [(''accept'', [''*/*''])]\<rparr>"
proof -
  let ?req = "\<lparr>verb = ''GET'', url = ''/users'', body = (), headers = [(''accept'', [''*/*''])]\<rparr>"
  have held: "getToken (setToken ''Bearer abc'' new_AuthState) = Some ''abc''"
    by (simp add: getToken_setToken)
  have none: "getToken new_AuthState = None"
    by (simp add: getToken_def new_AuthState_def new_BehaviorSubject_def getValue_def)
  have absent: "headers_getAll ''Authorization'' (headers ?req) = None"
    by (simp add: headers_getAll_def lower_Authorization)
  note decorated = intercept_request_decorates
    [where authState = "setToken ''Bearer abc'' new_AuthState" and t = "''abc''" and req = ?req]
  note untouched = intercept_request_decorates
    [where authState = new_AuthState and req = ?req]
  from decorated held absent untouched none show ?thesis by simp
qed

text \<open>
  C9. In every state of the service the getter \<^verbatim>\<open>authenticated\<close> is "the current user is
  not null", also right after any \<^verbatim>\<open>setUser\<close>; the value that \<^verbatim>\<open>authenticated$\<close> sent last
  to a subscriber (whenever it subscribed) is the same, before and after a \<^verbatim>\<open>setUser\<close>;
  and both are functions of the user subject alone, so nothing else can set them.
\<close>

theorem authenticated_is_derived:
  "authenticated svc = (user svc \<noteq> None)
   \<and> authenticated (setUser u svc) = (u \<noteq> None)
   \<and> (k \<le> length (earlier (currentUser svc)) \<longrightarrow>
        authenticated_stream k svc \<noteq> []
      \<and> last (authenticated_stream k svc) = (user svc \<noteq> None)
      \<and> last (authenticated_stream k (setUser u svc)) = (u \<noteq> None))
   \<and> (currentUser svc = currentUser other \<longrightarrow>
        authenticated svc = authenticated other
      \<and> authenticated_stream k svc = authenticated_stream k other)"
proof -
  have sync: "authenticated svc = (user svc \<noteq> None)"
    by (simp add: authenticated_def)
  have after: "authenticated (setUser u svc) = (u \<noteq> None)"
    by (simp add: authenticated_def user_def setUser_def getValue_def bs_next_def)
  have stream: "k \<le> length (earlier (currentUser svc)) \<longrightarrow>
        authenticated_stream k svc \<noteq> []
      \<and> last (authenticated_stream k svc) = (user svc \<noteq> None)
      \<and> last (authenticated_stream k (setUser u svc)) = (u \<noteq> None)"
  proof
    assume k: "k \<le> length (earlier (currentUser svc))"
    then have k': "k \<le> length (earlier (currentUser (setUser u svc)))"
      by (simp add: setUser_def bs_next_def)
    from authenticated_stream_last [OF k] authenticated_stream_last [OF k'] sync after
    show "authenticated_stream k svc \<noteq> []
      \<and> last (authenticated_stream k svc) = (user svc \<noteq> None)
      \<and> last (authenticated_stream k (setUser u svc)) = (u \<noteq> None)"
      by simp
  qed
  have derived: "currentUser svc = currentUser other \<longrightarrow>
        authenticated svc = authenticated other
      \<and> authenticated_stream k svc = authenticated_stream k other"
    by (simp add: authenticated_def user_def authenticated_stream_def user_stream_def)
  from sync after stream derived show ?thesis by blast
qed

theorem authenticated_is_derived_witness:
  "authenticated (setUser (Some (1::nat))
      (new_AuthService new_AuthState None None :: (string, nat, string, nat) AuthService))
   \<and> last (authenticated_stream 0 (setUser (Some (1::nat))
      (new_AuthService new_AuthState None None :: (string, nat, string, nat) AuthService)))
   \<and> \<not> last (authenticated_stream 0 (setUser None (setUser (Some (1::nat))
      (new_AuthService new_AuthState None None :: (string, nat, string, nat) AuthService))))"
  using authenticated_is_derived
    [where svc = "setUser (Some (1::nat))
        (new_AuthService new_AuthState None None :: (string, nat, string, nat) AuthService)"
       and u = None and k = 0
       and other = "setUser (Some (1::nat))
        (new_AuthService new_AuthState None None :: (string, nat, string, nat) AuthService)"]
  by (simp add: user_def setUser_def getValue_def bs_next_def)

text \<open>
  C10. \<^verbatim>\<open>activate\<close> hands a token that is not null to \<^verbatim>\<open>setToken\<close> before any check:
  whenever \<^verbatim>\<open>activate(userId, token)\<close> with such a token throws, the state it leaves is
  the state before the call with the token set, so the token held is the last
  space-separated segment of the argument. It throws in two cases only: the user id is
  null and the latch is true ("Can not activate `null` user"), or the user id is not null
  and no User Resolver was injected ("UserProvider dependency required").
\<close>

theorem activate_failure_keeps_token:
  assumes "fst (activate userId (Some t) svc) = Inl err"
  shows "getToken (state (snd (activate userId (Some t) svc))) = Some (last (js_split (CHR '' '') t))
         \<and> snd (activate userId (Some t) svc) = svc\<lparr>state := setToken t (state svc)\<rparr>
         \<and> ((err = ReactivationError \<and> userId = None \<and> getValue (activated svc) = True)
            \<or> (err = MissingResolverError \<and> userId \<noteq> None \<and> userProvider svc = None))"
proof (cases userId)
  case None
  with assms show ?thesis
    by (simp add: activate_def Let_def getToken_setToken getValue_def split: if_splits)
next
  case (Some uid)
  with assms show ?thesis
    by (simp add: activate_def Let_def getToken_setToken split: option.splits)
qed

theorem activate_failure_keeps_token_witness:
  "fst (activate None (Some ''Bearer abc'')
          (latch (new_AuthService new_AuthState None None :: (string, nat, string, nat) AuthService)))
     = Inl ReactivationError
   \<and> getToken (state (snd (activate None (Some ''Bearer abc'')
          (latch (new_AuthService new_AuthState None None :: (string, nat, string, nat) AuthService)))))
     = Some ''abc''
   \<and> getToken (state (latch (new_AuthService new_AuthState None None :: (string, nat, string, nat) AuthService)))
     = None"
proof -
  let ?svc = "latch (new_AuthService new_AuthState None None :: (string, nat, string, nat) AuthService)"
  have failed: "fst (activate None (Some ''Bearer abc'') ?svc) = Inl ReactivationError"
    by (simp add: activate_def latch_def new_AuthService_def getValue_def bs_next_def)
  have before: "getToken (state ?svc) = None"
    by (simp add: latch_def new_AuthService_def new_AuthState_def getToken_def getValue_def
        new_BehaviorSubject_def)
  have after: "getToken (state (snd (activate None (Some ''Bearer abc'') ?svc))) = Some ''abc''"
    using activate_failure_keeps_token [OF failed, THEN conjunct1] by simp
  from failed after before show ?thesis by blast
qed

end
